theory Spec2Isabelle
  imports Main "HOL-Library.Word"
begin

section \<open>Host values\<close>

text \<open>
  The binding in \<^verbatim>\<open>src/main.cc\<close> exposes a C++ spellchecking engine to JavaScript. The
  values it receives and builds are V8 values. Strings are sequences of 16-bit code units
  (\<^verbatim>\<open>String::Length\<close>, \<^verbatim>\<open>String::Write\<close>); a Buffer is an object with an identity and a
  byte content; C++ \<^verbatim>\<open>std::string\<close> is a byte string, here \<open>string\<close>.
\<close>

type_synonym uint16 = "16 word"
type_synonym uint8 = "8 word"

datatype jsvalue =
    JUndefined
  | JNull
  | JBoolean bool
  | JInteger int
  | JString "uint16 list"
  | JBuffer nat "uint8 list"
  | JFunction nat
  | JArray "jsvalue list"
  | JObject "(string \<times> jsvalue) list"
  | JError string
  | JSymbol nat

text \<open>
  The conversions between V8 values and UTF-8 byte strings belong to V8, not to this
  repository; they are parameters of the model. \<open>ToString\<close> is V8's conversion of a value
  that is not a string to a string, which fails for a symbol and for an object whose own
  \<^verbatim>\<open>toString\<close> raises; \<open>WriteUtf8\<close> encodes the code units of a string; \<open>NewString\<close> is
  \<^verbatim>\<open>Nan::New<String>(data, size)\<close>, a \<^verbatim>\<open>MaybeLocal\<close> that is empty when V8 cannot make the
  string.
\<close>

record host =
  ToString :: "jsvalue \<Rightarrow> uint16 list option"
  WriteUtf8 :: "uint16 list \<Rightarrow> string"
  NewString :: "string \<Rightarrow> jsvalue option"

text \<open>
  \<^verbatim>\<open>*String::Utf8Value(v)\<close>: the bytes of the value converted to a string, or the null
  pointer (\<open>None\<close>) when the conversion fails. A string needs no conversion.
\<close>

definition Utf8Value :: "host \<Rightarrow> jsvalue \<Rightarrow> string option" where
  "Utf8Value H v =
     (case v of
        JString s \<Rightarrow> Some (WriteUtf8 H s)
      | _ \<Rightarrow> (case ToString H v of None \<Rightarrow> None | Some s \<Rightarrow> Some (WriteUtf8 H s)))"

text \<open>
  What leaves a native function other than by its return, and ends the run of the
  process: a C++ exception of the engine that nothing catches; V8's fatal error when
  \<^verbatim>\<open>ToLocalChecked\<close> meets an empty handle; the construction of a \<^verbatim>\<open>std::string\<close> from the
  null pointer of a failed \<^verbatim>\<open>Utf8Value\<close>; and the call of a value that is not a function,
  which invokes nothing.
\<close>

datatype fault = EngineFault string | EmptyMaybeLocal | NullStdString | CalledNonCallable

text \<open>\<^verbatim>\<open>std::string x = *String::Utf8Value(v)\<close>.\<close>

definition std_string :: "string option \<Rightarrow> fault + string" where
  "std_string p = (case p of None \<Rightarrow> Inl NullStdString | Some bytes \<Rightarrow> Inr bytes)"

definition ToLocalChecked :: "'a option \<Rightarrow> fault + 'a" where
  "ToLocalChecked m = (case m of None \<Rightarrow> Inl EmptyMaybeLocal | Some v \<Rightarrow> Inr v)"

text \<open>\<^verbatim>\<open>info[i]\<close>: V8 gives \<^verbatim>\<open>undefined\<close> for an index past the arguments.\<close>

definition arg :: "jsvalue list \<Rightarrow> nat \<Rightarrow> jsvalue" where
  "arg info i = (if i < length info then info ! i else JUndefined)"

fun IsString :: "jsvalue \<Rightarrow> bool" where
  "IsString (JString s) = True"
| "IsString v = False"

fun IsFunction :: "jsvalue \<Rightarrow> bool" where
  "IsFunction (JFunction f) = True"
| "IsFunction v = False"

text \<open>\<^verbatim>\<open>node::Buffer::HasInstance\<close>, \<^verbatim>\<open>node::Buffer::Data\<close> and \<^verbatim>\<open>node::Buffer::Length\<close>.\<close>

fun HasInstance :: "jsvalue \<Rightarrow> bool" where
  "HasInstance (JBuffer b bytes) = True"
| "HasInstance v = False"

fun Buffer_Data :: "jsvalue \<Rightarrow> uint8 list" where
  "Buffer_Data (JBuffer b bytes) = bytes"
| "Buffer_Data v = []"

definition Buffer_Length :: "jsvalue \<Rightarrow> nat" where
  "Buffer_Length v = length (Buffer_Data v)"

text \<open>
  \<^verbatim>\<open>string->Write(buffer)\<close> with V8's default arguments copies every code unit of the
  string to the front of the buffer and ends it with a zero unit.
\<close>

definition String_Write :: "uint16 list \<Rightarrow> uint16 list \<Rightarrow> uint16 list" where
  "String_Write string buffer = string @ [0] @ drop (length string + 1) buffer"

text \<open>
  \<^verbatim>\<open>array->Set(index, v)\<close>: an index at or past the length grows the array, the gap
  reading \<^verbatim>\<open>undefined\<close>. \<^verbatim>\<open>object->Set(key, v)\<close>: properties keep their insertion order.
\<close>

definition array_Set :: "jsvalue list \<Rightarrow> nat \<Rightarrow> jsvalue \<Rightarrow> jsvalue list" where
  "array_Set elems index v =
     (if index < length elems then elems[index := v]
      else elems @ replicate (index - length elems) JUndefined @ [v])"

fun object_Set :: "(string \<times> jsvalue) list \<Rightarrow> string \<Rightarrow> jsvalue \<Rightarrow> (string \<times> jsvalue) list" where
  "object_Set [] key v = [(key, v)]"
| "object_Set (p # props) key v =
     (if fst p = key then (key, v) # props else p # object_Set props key v)"

section \<open>The engine\<close>

text \<open>
  Modelled from the spec: \<^verbatim>\<open>MisspelledRange\<close>, declared in \<^verbatim>\<open>spellchecker.h\<close>, which is not
  among the sources. The spec has it as an interval of offsets into the text, counted in
  code units; \<^verbatim>\<open>main.cc\<close> reads its members \<^verbatim>\<open>start\<close> and \<^verbatim>\<open>end\<close>. The members are natural
  numbers here, of no fixed width (\<open>end\<close> is a reserved word, hence the longer names).
\<close>

record MisspelledRange =
  range_start :: nat
  range_end :: nat

text \<open>
  Modelled from the spec: the engine's interface \<^verbatim>\<open>SpellcheckerImplementation\<close>, declared
  in the same header. The engine is a parameter of the model: the eight operations of
  the spec's capability set, which are the ones \<^verbatim>\<open>main.cc\<close> calls through \<^verbatim>\<open>impl->\<close>, with
  the argument and result types of the call sites, over an engine state \<open>'e\<close>. A call
  either faults or gives its result and the engine's next state.
\<close>

record 'e SpellcheckerImplementation =
  impl_SetDictionary :: "string \<Rightarrow> 'e \<Rightarrow> fault + bool \<times> 'e"
  impl_SetDictionaryToContents :: "uint8 list \<Rightarrow> nat \<Rightarrow> 'e \<Rightarrow> fault + bool \<times> 'e"
  impl_IsMisspelled :: "string \<Rightarrow> 'e \<Rightarrow> fault + bool \<times> 'e"
  impl_CheckSpelling :: "uint16 list \<Rightarrow> nat \<Rightarrow> 'e \<Rightarrow> fault + MisspelledRange list \<times> 'e"
  impl_Add :: "string \<Rightarrow> 'e \<Rightarrow> fault + 'e"
  impl_Remove :: "string \<Rightarrow> 'e \<Rightarrow> fault + 'e"
  impl_GetAvailableDictionaries :: "string \<Rightarrow> 'e \<Rightarrow> fault + string list \<times> 'e"
  impl_GetCorrectionsForMisspelling :: "string \<Rightarrow> 'e \<Rightarrow> fault + string list \<times> 'e"

section \<open>The workers\<close>

text \<open>
  \<^verbatim>\<open>Nan::AsyncWorker\<close> (of the nan library) holds the callback and an error message that
  \<^verbatim>\<open>Execute\<close> may set; the two workers of \<^verbatim>\<open>main.cc\<close> extend it. Their \<^verbatim>\<open>impl\<close> member points
  to the controller's engine: the model passes the engine's state to \<^verbatim>\<open>Execute\<close>. The
  members \<^verbatim>\<open>text\<close> and \<^verbatim>\<open>word\<close> are \<open>cs_text\<close> and \<open>gc_word\<close> (\<open>text\<close> is a reserved word).
\<close>

record AsyncWorker =
  callback :: jsvalue
  errmsg :: "string option"

record CheckSpellingWorker = AsyncWorker +
  cs_text :: "uint16 list"
  misspelled_ranges :: "MisspelledRange list"

record GetCorrectionsForMisspellingWorker = AsyncWorker +
  gc_word :: string
  corrections :: "string list"

datatype job =
    CheckSpelling_job CheckSpellingWorker
  | GetCorrections_job GetCorrectionsForMisspellingWorker

text \<open>
  One invocation of a callback: the function called and its arguments.
  \<^verbatim>\<open>callback->Call(argc, argv)\<close> invokes the value that the worker was constructed with,
  which \<^verbatim>\<open>As<Function>()\<close> cast without a check: when it is not a function, nothing is
  invoked and V8 raises a type error that has no JavaScript caller to catch it.
\<close>

datatype invocation = Call jsvalue "jsvalue list"

definition Callback_Call :: "jsvalue \<Rightarrow> jsvalue list \<Rightarrow> fault + invocation list" where
  "Callback_Call cb argv = (if IsFunction cb then Inr [Call cb argv] else Inl CalledNonCallable)"

definition new_CheckSpellingWorker :: "jsvalue \<Rightarrow> uint16 list \<Rightarrow> CheckSpellingWorker" where
  "new_CheckSpellingWorker cb t =
     \<lparr>callback = cb, errmsg = None, cs_text = t, misspelled_ranges = []\<rparr>"

definition new_GetCorrectionsForMisspellingWorker ::
  "jsvalue \<Rightarrow> string \<Rightarrow> GetCorrectionsForMisspellingWorker" where
  "new_GetCorrectionsForMisspellingWorker cb w =
     \<lparr>callback = cb, errmsg = None, gc_word = w, corrections = []\<rparr>"

subsection \<open>CheckSpellingWorker\<close>

definition CheckSpellingWorker_Execute ::
  "'e SpellcheckerImplementation \<Rightarrow> CheckSpellingWorker \<Rightarrow> 'e \<Rightarrow> fault + CheckSpellingWorker \<times> 'e" where
  "CheckSpellingWorker_Execute E w e =
     (case impl_CheckSpelling E (cs_text w) (length (cs_text w)) e of
        Inl f \<Rightarrow> Inl f
      | Inr (ranges, e') \<Rightarrow> Inr (w\<lparr>misspelled_ranges := ranges\<rparr>, e'))"

text \<open>
  The body of the loop of \<^verbatim>\<open>HandleOKCallback\<close>: both members go through \<^verbatim>\<open>uint32_t\<close> and
  become V8 integers, set under the keys \<^verbatim>\<open>start\<close> and \<^verbatim>\<open>end\<close> (V8 makes a string of each of
  these two literals without fail).
\<close>

definition misspelled_range_object :: "MisspelledRange \<Rightarrow> jsvalue" where
  "misspelled_range_object r =
     (let start = (of_nat (range_start r) :: 32 word);
          end' = (of_nat (range_end r) :: 32 word);
          obj0 = object_Set [] ''start'' (JInteger (uint start));
          obj1 = object_Set obj0 ''end'' (JInteger (uint end'))
      in JObject obj1)"

text \<open>
  The loop runs an iterator from \<^verbatim>\<open>begin()\<close> to \<^verbatim>\<open>end()\<close>; \<open>index\<close> is
  \<^verbatim>\<open>iter - begin()\<close>, the number of ranges already passed.
\<close>

fun misspelledRanges_loop :: "MisspelledRange list \<Rightarrow> nat \<Rightarrow> jsvalue list \<Rightarrow> jsvalue list" where
  "misspelledRanges_loop [] index arr = arr"
| "misspelledRanges_loop (r # rest) index arr =
     misspelledRanges_loop rest (Suc index) (array_Set arr index (misspelled_range_object r))"

definition CheckSpellingWorker_HandleOKCallback :: "CheckSpellingWorker \<Rightarrow> fault + invocation list" where
  "CheckSpellingWorker_HandleOKCallback w =
     (let misspelledRanges = misspelledRanges_loop (misspelled_ranges w) 0 []
      in Callback_Call (callback w) [JNull, JArray misspelledRanges])"

subsection \<open>GetCorrectionsForMisspellingWorker\<close>

definition GetCorrectionsForMisspellingWorker_Execute ::
  "'e SpellcheckerImplementation \<Rightarrow> GetCorrectionsForMisspellingWorker \<Rightarrow> 'e
     \<Rightarrow> fault + GetCorrectionsForMisspellingWorker \<times> 'e" where
  "GetCorrectionsForMisspellingWorker_Execute E w e =
     (case impl_GetCorrectionsForMisspelling E (gc_word w) e of
        Inl f \<Rightarrow> Inl f
      | Inr (cs, e') \<Rightarrow> Inr (w\<lparr>corrections := cs\<rparr>, e'))"

function corrections_loop :: "host \<Rightarrow> string list \<Rightarrow> nat \<Rightarrow> jsvalue list \<Rightarrow> fault + jsvalue list" where
  "corrections_loop H cs i result =
     (if i < length cs then
        (case ToLocalChecked (NewString H (cs ! i)) of
           Inl f \<Rightarrow> Inl f
         | Inr val \<Rightarrow> corrections_loop H cs (Suc i) (array_Set result i val))
      else Inr result)"
  by pat_completeness auto
termination
  by (relation "measure (\<lambda>(H, cs, i, result). length cs - i)") auto

definition GetCorrectionsForMisspellingWorker_HandleOKCallback ::
  "host \<Rightarrow> GetCorrectionsForMisspellingWorker \<Rightarrow> fault + invocation list" where
  "GetCorrectionsForMisspellingWorker_HandleOKCallback H w =
     (case corrections_loop H (corrections w) 0 (replicate (length (corrections w)) JUndefined) of
        Inl f \<Rightarrow> Inl f
      | Inr result \<Rightarrow> Callback_Call (callback w) [JNull, JArray result])"

subsection \<open>The worker's life in nan\<close>

text \<open>
  \<^verbatim>\<open>AsyncQueueWorker\<close> hands the worker to the thread pool, which runs \<^verbatim>\<open>Execute\<close>; back on
  the main loop \<^verbatim>\<open>AsyncWorker::WorkComplete\<close> calls \<^verbatim>\<open>HandleOKCallback\<close> when no error
  message was set and \<^verbatim>\<open>HandleErrorCallback\<close> otherwise, whose default calls the callback
  with one argument, the error. Neither worker overrides \<^verbatim>\<open>HandleErrorCallback\<close>.
\<close>

definition Execute :: "'e SpellcheckerImplementation \<Rightarrow> job \<Rightarrow> 'e \<Rightarrow> fault + job \<times> 'e" where
  "Execute E j e =
     (case j of
        CheckSpelling_job w \<Rightarrow>
          (case CheckSpellingWorker_Execute E w e of
             Inl f \<Rightarrow> Inl f | Inr (w', e') \<Rightarrow> Inr (CheckSpelling_job w', e'))
      | GetCorrections_job w \<Rightarrow>
          (case GetCorrectionsForMisspellingWorker_Execute E w e of
             Inl f \<Rightarrow> Inl f | Inr (w', e') \<Rightarrow> Inr (GetCorrections_job w', e')))"

definition HandleOKCallback :: "host \<Rightarrow> job \<Rightarrow> fault + invocation list" where
  "HandleOKCallback H j =
     (case j of
        CheckSpelling_job w \<Rightarrow> CheckSpellingWorker_HandleOKCallback w
      | GetCorrections_job w \<Rightarrow> GetCorrectionsForMisspellingWorker_HandleOKCallback H w)"

definition job_callback :: "job \<Rightarrow> jsvalue" where
  "job_callback j = (case j of CheckSpelling_job w \<Rightarrow> callback w | GetCorrections_job w \<Rightarrow> callback w)"

definition ErrorMessage :: "job \<Rightarrow> string option" where
  "ErrorMessage j = (case j of CheckSpelling_job w \<Rightarrow> errmsg w | GetCorrections_job w \<Rightarrow> errmsg w)"

definition HandleErrorCallback :: "job \<Rightarrow> string \<Rightarrow> fault + invocation list" where
  "HandleErrorCallback j msg = Callback_Call (job_callback j) [JError msg]"

definition WorkComplete :: "host \<Rightarrow> job \<Rightarrow> fault + invocation list" where
  "WorkComplete H j =
     (case ErrorMessage j of
        None \<Rightarrow> HandleOKCallback H j
      | Some msg \<Rightarrow> HandleErrorCallback j msg)"

definition run_job ::
  "'e SpellcheckerImplementation \<Rightarrow> host \<Rightarrow> job \<Rightarrow> 'e \<Rightarrow> fault + invocation list \<times> 'e" where
  "run_job E H j e =
     (case Execute E j e of
        Inl f \<Rightarrow> Inl f
      | Inr (j', e') \<Rightarrow>
          (case WorkComplete H j' of
             Inl f \<Rightarrow> Inl f
           | Inr calls \<Rightarrow> Inr (calls, e')))"

section \<open>The controller\<close>

text \<open>
  \<^verbatim>\<open>class Spellchecker\<close>: the engine it owns and the persistent handle \<^verbatim>\<open>dictData\<close>, empty
  until a dictionary buffer is pinned. The constructor takes the engine from the factory.
\<close>

record 'e Spellchecker =
  impl :: 'e
  dictData :: "jsvalue option"

definition New :: "'e \<Rightarrow> 'e Spellchecker" where
  "New e = \<lparr>impl = e, dictData = None\<rparr>"

text \<open>
  What a native method leaves behind when it returns: the JavaScript exception it raised
  with \<^verbatim>\<open>Nan::ThrowError\<close> (if any), its return value, the controller, and the workers it
  handed to \<^verbatim>\<open>AsyncQueueWorker\<close>.
\<close>

record 'e outcome =
  threw :: "string option"
  return_value :: jsvalue
  that :: "'e Spellchecker"
  queued :: "job list"

definition ThrowError :: "string \<Rightarrow> 'e Spellchecker \<Rightarrow> 'e outcome" where
  "ThrowError msg c = \<lparr>threw = Some msg, return_value = JUndefined, that = c, queued = []\<rparr>"

definition Return :: "jsvalue \<Rightarrow> 'e Spellchecker \<Rightarrow> 'e outcome" where
  "Return v c = \<lparr>threw = None, return_value = v, that = c, queued = []\<rparr>"

definition AsyncQueueWorker :: "job \<Rightarrow> 'e Spellchecker \<Rightarrow> 'e outcome" where
  "AsyncQueueWorker j c = \<lparr>threw = None, return_value = JUndefined, that = c, queued = [j]\<rparr>"

definition SetDictionary ::
  "'e SpellcheckerImplementation \<Rightarrow> host \<Rightarrow> jsvalue list \<Rightarrow> 'e Spellchecker \<Rightarrow> fault + 'e outcome" where
  "SetDictionary E H info c =
     (if length info < 1 then Inr (ThrowError ''Bad argument'' c)
      else if length info > 1 \<and> \<not> HasInstance (arg info 1)
        then Inr (ThrowError ''SetDictionary 2nd argument must be a Buffer'' c)
      else
        (let has_contents = (length info > 1);
             c1 = (if has_contents then c\<lparr>dictData := Some (arg info 1)\<rparr> else c)
         in case std_string (Utf8Value H (arg info 0)) of
              Inl f \<Rightarrow> Inl f
            | Inr language \<Rightarrow>
                if has_contents then
                  (case impl_SetDictionaryToContents E
                          (Buffer_Data (arg info 1)) (Buffer_Length (arg info 1)) (impl c1) of
                     Inl f \<Rightarrow> Inl f
                   | Inr (result, e') \<Rightarrow> Inr (Return (JBoolean result) (c1\<lparr>impl := e'\<rparr>)))
                else
                  (case impl_SetDictionary E language (impl c1) of
                     Inl f \<Rightarrow> Inl f
                   | Inr (result, e') \<Rightarrow> Inr (Return (JBoolean result) (c1\<lparr>impl := e'\<rparr>)))))"

definition IsMisspelled ::
  "'e SpellcheckerImplementation \<Rightarrow> host \<Rightarrow> jsvalue list \<Rightarrow> 'e Spellchecker \<Rightarrow> fault + 'e outcome" where
  "IsMisspelled E H info c =
     (if length info < 1 then Inr (ThrowError ''Bad argument'' c)
      else
        (case std_string (Utf8Value H (arg info 0)) of
           Inl f \<Rightarrow> Inl f
         | Inr word \<Rightarrow>
             (case impl_IsMisspelled E word (impl c) of
                Inl f \<Rightarrow> Inl f
              | Inr (result, e') \<Rightarrow> Inr (Return (JBoolean result) (c\<lparr>impl := e'\<rparr>)))))"

text \<open>
  \<^verbatim>\<open>CheckSpellingAsync\<close>. \<^verbatim>\<open>string->Length()\<close> is an \<^verbatim>\<open>int\<close>; V8 strings are shorter than
  \<open>2^30\<close> units, so \<^verbatim>\<open>Length() + 1\<close> does not overflow and lengths are natural numbers
  here. The vector is made of \<^verbatim>\<open>Length() + 1\<close> zero units, then written to.
  \<^verbatim>\<open>info[1].As<Function>()\<close> is a cast that checks nothing.
\<close>

definition CheckSpellingAsync :: "jsvalue list \<Rightarrow> 'e Spellchecker \<Rightarrow> fault + 'e outcome" where
  "CheckSpellingAsync info c =
     (if length info < 1 then Inr (ThrowError ''Bad argument'' c)
      else
        (case arg info 0 of
           JString string \<Rightarrow>
             if length string = 0 then Inr (Return JUndefined c)
             else
               (let text0 = replicate (length string + 1) 0;
                    text1 = String_Write string text0;
                    cb = arg info 1
                in Inr (AsyncQueueWorker (CheckSpelling_job (new_CheckSpellingWorker cb text1)) c))
         | _ \<Rightarrow> Inr (ThrowError ''Bad argument'' c)))"

definition Add ::
  "'e SpellcheckerImplementation \<Rightarrow> host \<Rightarrow> jsvalue list \<Rightarrow> 'e Spellchecker \<Rightarrow> fault + 'e outcome" where
  "Add E H info c =
     (if length info < 1 then Inr (ThrowError ''Bad argument'' c)
      else
        (case std_string (Utf8Value H (arg info 0)) of
           Inl f \<Rightarrow> Inl f
         | Inr word \<Rightarrow>
             (case impl_Add E word (impl c) of
                Inl f \<Rightarrow> Inl f
              | Inr e' \<Rightarrow> Inr (Return JUndefined (c\<lparr>impl := e'\<rparr>)))))"

definition Remove ::
  "'e SpellcheckerImplementation \<Rightarrow> host \<Rightarrow> jsvalue list \<Rightarrow> 'e Spellchecker \<Rightarrow> fault + 'e outcome" where
  "Remove E H info c =
     (if length info < 1 then Inr (ThrowError ''Bad argument'' c)
      else
        (case std_string (Utf8Value H (arg info 0)) of
           Inl f \<Rightarrow> Inl f
         | Inr word \<Rightarrow>
             (case impl_Remove E word (impl c) of
                Inl f \<Rightarrow> Inl f
              | Inr e' \<Rightarrow> Inr (Return JUndefined (c\<lparr>impl := e'\<rparr>)))))"

text \<open>
  \<^verbatim>\<open>GetAvailableDictionaries\<close> declares \<^verbatim>\<open>path\<close> twice: the outer one starts as \<^verbatim>\<open>"."\<close>; the
  block of the \<^verbatim>\<open>if\<close> declares a second \<^verbatim>\<open>path\<close>, here \<open>inner_path\<close>, which is constructed
  from the argument (and so can fail as every such construction) and ends with the
  block. The engine is called with the outer one.
\<close>

function dictionaries_loop ::
  "host \<Rightarrow> string list \<Rightarrow> nat \<Rightarrow> jsvalue list \<Rightarrow> fault + jsvalue list" where
  "dictionaries_loop H dictionaries i result =
     (if i < length dictionaries then
        (case ToLocalChecked (NewString H (dictionaries ! i)) of
           Inl f \<Rightarrow> Inl f
         | Inr val \<Rightarrow> dictionaries_loop H dictionaries (Suc i) (array_Set result i val))
      else Inr result)"
  by pat_completeness auto
termination
  by (relation "measure (\<lambda>(H, dictionaries, i, result). length dictionaries - i)") auto

definition GetAvailableDictionaries ::
  "'e SpellcheckerImplementation \<Rightarrow> host \<Rightarrow> jsvalue list \<Rightarrow> 'e Spellchecker \<Rightarrow> fault + 'e outcome" where
  "GetAvailableDictionaries E H info c =
     (let path = ''.''
      in case (if length info > 0 then std_string (Utf8Value H (arg info 0)) else Inr path) of
           Inl f \<Rightarrow> Inl f
         | Inr inner_path \<Rightarrow>
             (case impl_GetAvailableDictionaries E path (impl c) of
                Inl f \<Rightarrow> Inl f
              | Inr (dictionaries, e') \<Rightarrow>
                  (case dictionaries_loop H dictionaries 0
                          (replicate (length dictionaries) JUndefined) of
                     Inl f \<Rightarrow> Inl f
                   | Inr result \<Rightarrow> Inr (Return (JArray result) (c\<lparr>impl := e'\<rparr>)))))"

definition GetCorrectionsForMisspellingAsync ::
  "host \<Rightarrow> jsvalue list \<Rightarrow> 'e Spellchecker \<Rightarrow> fault + 'e outcome" where
  "GetCorrectionsForMisspellingAsync H info c =
     (if length info < 1 then Inr (ThrowError ''Bad argument'' c)
      else
        (case std_string (Utf8Value H (arg info 0)) of
           Inl f \<Rightarrow> Inl f
         | Inr word \<Rightarrow>
             (let cb = arg info 1
              in Inr (AsyncQueueWorker
                        (GetCorrections_job (new_GetCorrectionsForMisspellingWorker cb word)) c))))"

text \<open>\<^verbatim>\<open>Spellchecker::Init\<close>: the JavaScript names and the native methods behind them.\<close>

datatype js_method =
    setDictionary
  | getAvailableDictionaries
  | getCorrectionsForMisspellingAsync
  | isMisspelled
  | checkSpellingAsync
  | add
  | remove

definition Init ::
  "'e SpellcheckerImplementation \<Rightarrow> host \<Rightarrow> js_method \<Rightarrow> jsvalue list \<Rightarrow> 'e Spellchecker
     \<Rightarrow> fault + 'e outcome" where
  "Init E H m =
     (case m of
        setDictionary \<Rightarrow> SetDictionary E H
      | getAvailableDictionaries \<Rightarrow> GetAvailableDictionaries E H
      | getCorrectionsForMisspellingAsync \<Rightarrow> GetCorrectionsForMisspellingAsync H
      | isMisspelled \<Rightarrow> IsMisspelled E H
      | checkSpellingAsync \<Rightarrow> CheckSpellingAsync
      | add \<Rightarrow> Add E H
      | remove \<Rightarrow> Remove E H)"

section \<open>The process: calls and queued work\<close>

text \<open>
  One controller in one process: the controller, the workers queued and not yet run, and
  the callback invocations made so far. An action is a call from JavaScript, the run of
  the oldest queued worker (\<^verbatim>\<open>Execute\<close>, then \<^verbatim>\<open>WorkComplete\<close>), or the run of the queued
  worker at any position, since the thread pool may finish workers in another order than
  they were queued. A worker's run is one step: two runs that overlap in time are not
  represented. A fault ends the process.
\<close>

record 'e process =
  controller :: "'e Spellchecker"
  pending :: "job list"
  delivered :: "invocation list"

datatype action = Invoke js_method "jsvalue list" | RunNext | RunAt nat

definition start :: "'e \<Rightarrow> 'e process" where
  "start e = \<lparr>controller = New e, pending = [], delivered = []\<rparr>"

definition step ::
  "'e SpellcheckerImplementation \<Rightarrow> host \<Rightarrow> action \<Rightarrow> 'e process \<Rightarrow> fault + 'e process" where
  "step E H a s =
     (case a of
        Invoke m info \<Rightarrow>
          (case Init E H m info (controller s) of
             Inl f \<Rightarrow> Inl f
           | Inr out \<Rightarrow> Inr (s\<lparr>controller := that out, pending := pending s @ queued out\<rparr>))
      | RunNext \<Rightarrow>
          (case pending s of
             [] \<Rightarrow> Inr s
           | j # js \<Rightarrow>
               (case run_job E H j (impl (controller s)) of
                  Inl f \<Rightarrow> Inl f
                | Inr (calls, e') \<Rightarrow>
                    Inr (s\<lparr>controller := (controller s)\<lparr>impl := e'\<rparr>,
                           pending := js,
                           delivered := delivered s @ calls\<rparr>)))
      | RunAt i \<Rightarrow>
          (if i < length (pending s) then
             (case run_job E H (pending s ! i) (impl (controller s)) of
                Inl f \<Rightarrow> Inl f
              | Inr (calls, e') \<Rightarrow>
                  Inr (s\<lparr>controller := (controller s)\<lparr>impl := e'\<rparr>,
                         pending := take i (pending s) @ drop (Suc i) (pending s),
                         delivered := delivered s @ calls\<rparr>))
           else Inr s))"

fun run ::
  "'e SpellcheckerImplementation \<Rightarrow> host \<Rightarrow> action list \<Rightarrow> 'e process \<Rightarrow> fault + 'e process" where
  "run E H [] s = Inr s"
| "run E H (a # rest) s = (case step E H a s of Inl f \<Rightarrow> Inl f | Inr s' \<Rightarrow> run E H rest s')"

text \<open>
  An action that pins a buffer: a \<^verbatim>\<open>setDictionary\<close> call whose second argument is a Buffer.
\<close>

fun pins_buffer :: "action \<Rightarrow> bool" where
  "pins_buffer (Invoke setDictionary info) = (length info > 1 \<and> HasInstance (arg info 1))"
| "pins_buffer a = False"

text \<open>The buffers the controller keeps alive: what \<^verbatim>\<open>dictData\<close> holds.\<close>

definition pinned :: "'e Spellchecker \<Rightarrow> jsvalue set" where
  "pinned c = set_option (dictData c)"

section \<open>Engines and a host for the examples\<close>

text \<open>
  \<open>recorder\<close> is an engine that keeps the list of the calls it received, arguments
  included, and answers with fixed results. \<open>broken\<close> is the same engine, but its two
  operations used by the workers fault. \<open>far\<close> is the same engine, but the range it
  reports starts at \<open>2^32\<close>. \<open>ascii\<close> is a host for the examples: its encoding and
  decoding are right on strings of ASCII characters, and of the values that are not
  strings it converts \<^verbatim>\<open>undefined\<close> and fails on every other, as V8 does on a symbol.
\<close>

datatype engine_call =
    SetDictionary_call string
  | SetDictionaryToContents_call "uint8 list" nat
  | IsMisspelled_call string
  | CheckSpelling_call "uint16 list" nat
  | Add_call string
  | Remove_call string
  | GetAvailableDictionaries_call string
  | GetCorrectionsForMisspelling_call string

definition recorder :: "engine_call list SpellcheckerImplementation" where
  "recorder =
     \<lparr>impl_SetDictionary = (\<lambda>language log. Inr (True, log @ [SetDictionary_call language])),
      impl_SetDictionaryToContents =
        (\<lambda>data n log. Inr (True, log @ [SetDictionaryToContents_call data n])),
      impl_IsMisspelled = (\<lambda>w log. Inr (True, log @ [IsMisspelled_call w])),
      impl_CheckSpelling =
        (\<lambda>data n log.
           Inr ([\<lparr>range_start = 0, range_end = 4\<rparr>, \<lparr>range_start = 5, range_end = 9\<rparr>],
                log @ [CheckSpelling_call data n])),
      impl_Add = (\<lambda>w log. Inr (log @ [Add_call w])),
      impl_Remove = (\<lambda>w log. Inr (log @ [Remove_call w])),
      impl_GetAvailableDictionaries =
        (\<lambda>path log. Inr ([''en_US''], log @ [GetAvailableDictionaries_call path])),
      impl_GetCorrectionsForMisspelling =
        (\<lambda>w log. Inr ([''tech'', ''the''], log @ [GetCorrectionsForMisspelling_call w]))\<rparr>"

definition broken :: "engine_call list SpellcheckerImplementation" where
  "broken =
     recorder
       \<lparr>impl_CheckSpelling := (\<lambda>data n log. Inl (EngineFault ''CheckSpelling'')),
        impl_GetCorrectionsForMisspelling :=
          (\<lambda>w log. Inl (EngineFault ''GetCorrectionsForMisspelling''))\<rparr>"


definition ascii :: host where
  "ascii =
     \<lparr>ToString =
        (\<lambda>v. case v of
               JUndefined \<Rightarrow> Some [117, 110, 100, 101, 102, 105, 110, 101, 100]
             | _ \<Rightarrow> None),
      WriteUtf8 = map (\<lambda>u. char_of (unat u)),
      NewString = (\<lambda>s. Some (JString (map (\<lambda>ch. of_nat (of_char ch)) s)))\<rparr>"

section \<open>The loops that build arrays\<close>

declare corrections_loop.simps [simp del]
declare dictionaries_loop.simps [simp del]

lemma array_Set_at_length: "array_Set arr (length arr) v = arr @ [v]"
  by (simp add: array_Set_def)

lemma misspelledRanges_loop_appends:
  "misspelledRanges_loop rs (length arr) arr = arr @ map misspelled_range_object rs"
proof (induction rs arbitrary: arr)
  case Nil
  then show ?case by simp
next
  case (Cons r rs)
  have "misspelledRanges_loop (r # rs) (length arr) arr
          = misspelledRanges_loop rs (length (arr @ [misspelled_range_object r]))
              (arr @ [misspelled_range_object r])"
    by (simp add: array_Set_at_length)
  also have "\<dots> = (arr @ [misspelled_range_object r]) @ map misspelled_range_object rs"
    by (rule Cons.IH)
  finally show ?case by simp
qed

lemma uint32_of_offset:
  assumes "n < 2 ^ 32"
  shows "uint (of_nat n :: 32 word) = int n"
proof -
  have "unat (of_nat n :: 32 word) = n"
    using assms by (simp add: unat_of_nat)
  then show ?thesis
    by (metis uint_nat)
qed


lemma misspelled_range_object_small:
  assumes "range_start r < 2 ^ 32" and "range_end r < 2 ^ 32"
  shows "misspelled_range_object r =
           JObject [(''start'', JInteger (int (range_start r))),
                    (''end'', JInteger (int (range_end r)))]"
  using assms by (simp add: misspelled_range_object_def uint32_of_offset)



section \<open>The native methods, case by case\<close>

lemma CheckSpellingAsync_empty:
  "CheckSpellingAsync (JString [] # rest) c = Inr (Return JUndefined c)"
  by (simp add: CheckSpellingAsync_def arg_def)

lemma CheckSpellingAsync_nonempty:
  assumes "s \<noteq> []"
  shows "CheckSpellingAsync (JString s # rest) c =
           Inr (AsyncQueueWorker
                  (CheckSpelling_job (new_CheckSpellingWorker (arg (JString s # rest) 1) (s @ [0]))) c)"
  using assms by (simp add: CheckSpellingAsync_def arg_def String_Write_def)

text \<open>
  When the argument converts, \<^verbatim>\<open>GetAvailableDictionaries\<close> does what it does with no
  argument.
\<close>

lemma GetAvailableDictionaries_converted:
  assumes "Utf8Value H (arg info 0) = Some p"
  shows "GetAvailableDictionaries E H info c = GetAvailableDictionaries E H [] c"
  using assms by (simp add: GetAvailableDictionaries_def Let_def std_string_def)

text \<open>
  An argument that V8 cannot convert to a string ends the process in each of the five
  methods that build a \<^verbatim>\<open>std::string\<close> from their first argument, and in
  \<^verbatim>\<open>getAvailableDictionaries\<close> when the argument is given.
\<close>

lemma unconvertible_argument_faults:
  assumes "info \<noteq> []" and "Utf8Value H (arg info 0) = None"
  shows "IsMisspelled E H info c = Inl NullStdString"
    and "Add E H info c = Inl NullStdString"
    and "Remove E H info c = Inl NullStdString"
    and "GetCorrectionsForMisspellingAsync H info c = Inl NullStdString"
    and "GetAvailableDictionaries E H info c = Inl NullStdString"
    and "length info > 1 \<and> \<not> HasInstance (arg info 1)
           \<or> SetDictionary E H info c = Inl NullStdString"
  using assms
  by (auto simp: IsMisspelled_def Add_def Remove_def GetCorrectionsForMisspellingAsync_def
      GetAvailableDictionaries_def SetDictionary_def std_string_def Let_def)

section \<open>Running a worker\<close>

lemma run_job_CheckSpelling_completes:
  assumes "impl_CheckSpelling E t (length t) e = Inr (ranges, e')"
  shows "run_job E H (CheckSpelling_job (new_CheckSpellingWorker cb t)) e
           = (case Callback_Call cb [JNull, JArray (map misspelled_range_object ranges)] of
                Inl f \<Rightarrow> Inl f
              | Inr calls \<Rightarrow> Inr (calls, e'))"
proof -
  have "misspelledRanges_loop ranges 0 [] = map misspelled_range_object ranges"
    using misspelledRanges_loop_appends [of ranges "[]"] by simp
  then show ?thesis
    using assms
    by (simp add: run_job_def Execute_def CheckSpellingWorker_Execute_def
        new_CheckSpellingWorker_def WorkComplete_def ErrorMessage_def HandleOKCallback_def
        CheckSpellingWorker_HandleOKCallback_def)
qed

lemma run_job_CheckSpelling_returns:
  assumes "IsFunction cb" and "impl_CheckSpelling E t (length t) e = Inr (ranges, e')"
  shows "run_job E H (CheckSpelling_job (new_CheckSpellingWorker cb t)) e
           = Inr ([Call cb [JNull, JArray (map misspelled_range_object ranges)]], e')"
  using assms(1) run_job_CheckSpelling_completes [OF assms(2), of H cb]
  by (simp add: Callback_Call_def)


lemma run_job_CheckSpelling_faults:
  assumes "impl_CheckSpelling E t (length t) e = Inl f"
  shows "run_job E H (CheckSpelling_job (new_CheckSpellingWorker cb t)) e = Inl f"
  using assms
  by (simp add: run_job_def Execute_def CheckSpellingWorker_Execute_def
      new_CheckSpellingWorker_def)



lemma run_job_GetCorrections_faults:
  assumes "impl_GetCorrectionsForMisspelling E w e = Inl f"
  shows "run_job E H (GetCorrections_job (new_GetCorrectionsForMisspellingWorker cb w)) e = Inl f"
  using assms
  by (simp add: run_job_def Execute_def GetCorrectionsForMisspellingWorker_Execute_def
      new_GetCorrectionsForMisspellingWorker_def)



lemma Execute_keeps_ErrorMessage:
  assumes "Execute E j e = Inr (j', e')"
  shows "ErrorMessage j' = ErrorMessage j"
  using assms
  by (cases j)
     (auto simp: Execute_def ErrorMessage_def CheckSpellingWorker_Execute_def
        GetCorrectionsForMisspellingWorker_Execute_def split: sum.splits prod.splits)

text \<open>Every worker that a native method queues is a newly constructed one.\<close>

lemma queued_jobs_are_new:
  assumes "Init E H m info c = Inr out" and "j \<in> set (queued out)"
  shows "(\<exists>cb t. j = CheckSpelling_job (new_CheckSpellingWorker cb t))
       \<or> (\<exists>cb w. j = GetCorrections_job (new_GetCorrectionsForMisspellingWorker cb w))"
proof (cases m)
  case setDictionary
  then show ?thesis
    using assms
    by (auto simp: Init_def SetDictionary_def ThrowError_def Return_def Let_def
        std_string_def split: if_splits sum.splits prod.splits option.splits)
next
  case getAvailableDictionaries
  then show ?thesis
    using assms
    by (auto simp: Init_def GetAvailableDictionaries_def Return_def Let_def
        std_string_def split: if_splits sum.splits prod.splits option.splits)
next
  case getCorrectionsForMisspellingAsync
  then show ?thesis
    using assms
    by (fastforce simp: Init_def GetCorrectionsForMisspellingAsync_def ThrowError_def
        AsyncQueueWorker_def Let_def std_string_def split: if_splits option.splits)
next
  case isMisspelled
  then show ?thesis
    using assms
    by (auto simp: Init_def IsMisspelled_def ThrowError_def Return_def Let_def
        std_string_def split: if_splits sum.splits prod.splits option.splits)
next
  case checkSpellingAsync
  then show ?thesis
    using assms
    by (fastforce simp: Init_def CheckSpellingAsync_def ThrowError_def Return_def
        AsyncQueueWorker_def Let_def split: if_splits jsvalue.splits)
next
  case add
  then show ?thesis
    using assms
    by (auto simp: Init_def Add_def ThrowError_def Return_def Let_def
        std_string_def split: if_splits sum.splits option.splits)
next
  case remove
  then show ?thesis
    using assms
    by (auto simp: Init_def Remove_def ThrowError_def Return_def Let_def
        std_string_def split: if_splits sum.splits option.splits)
qed

section \<open>The pinned buffer along a run\<close>

lemma step_keeps_dictData:
  assumes "\<not> pins_buffer a" and "step E H a s = Inr s'"
  shows "dictData (controller s') = dictData (controller s)"
proof (cases a)
  case RunNext
  then show ?thesis
    using assms(2) by (auto simp: step_def split: list.splits sum.splits prod.splits)
next
  case (RunAt i)
  then show ?thesis
    using assms(2) by (auto simp: step_def split: if_splits sum.splits prod.splits)
next
  case (Invoke m info)
  show ?thesis
  proof (cases m)
    case setDictionary
    then have "\<not> (length info > 1 \<and> HasInstance (arg info 1))"
      using assms(1) Invoke by simp
    then show ?thesis
      using assms(2) Invoke setDictionary
      by (auto simp: step_def Init_def SetDictionary_def ThrowError_def Return_def Let_def
          std_string_def split: if_splits sum.splits prod.splits option.splits)
  next
    case getAvailableDictionaries
    then show ?thesis
      using assms(2) Invoke
      by (auto simp: step_def Init_def GetAvailableDictionaries_def Return_def Let_def
          std_string_def split: if_splits sum.splits prod.splits option.splits)
  next
    case getCorrectionsForMisspellingAsync
    then show ?thesis
      using assms(2) Invoke
      by (auto simp: step_def Init_def GetCorrectionsForMisspellingAsync_def ThrowError_def
          AsyncQueueWorker_def Let_def std_string_def split: if_splits option.splits)
  next
    case isMisspelled
    then show ?thesis
      using assms(2) Invoke
      by (auto simp: step_def Init_def IsMisspelled_def ThrowError_def Return_def Let_def
          std_string_def split: if_splits sum.splits prod.splits option.splits)
  next
    case checkSpellingAsync
    then show ?thesis
      using assms(2) Invoke
      by (auto simp: step_def Init_def CheckSpellingAsync_def ThrowError_def Return_def
          AsyncQueueWorker_def Let_def split: if_splits jsvalue.splits)
  next
    case add
    then show ?thesis
      using assms(2) Invoke
      by (auto simp: step_def Init_def Add_def ThrowError_def Return_def Let_def
          std_string_def split: if_splits sum.splits option.splits)
  next
    case remove
    then show ?thesis
      using assms(2) Invoke
      by (auto simp: step_def Init_def Remove_def ThrowError_def Return_def Let_def
          std_string_def split: if_splits sum.splits option.splits)
  qed
qed

lemma run_keeps_dictData:
  assumes "list_all (\<lambda>a. \<not> pins_buffer a) acts" and "run E H acts s = Inr s'"
  shows "dictData (controller s') = dictData (controller s)"
  using assms
proof (induction acts arbitrary: s)
  case Nil
  then show ?case by simp
next
  case (Cons a acts)
  from Cons.prems(2) obtain s1 where s1: "step E H a s = Inr s1" and rest: "run E H acts s1 = Inr s'"
    by (auto split: sum.splits)
  have "\<not> pins_buffer a"
    using Cons.prems(1) by simp
  then have "dictData (controller s1) = dictData (controller s)"
    using s1 by (rule step_keeps_dictData)
  moreover have "dictData (controller s') = dictData (controller s1)"
    using Cons.IH [OF _ rest] Cons.prems(1) by simp
  ultimately show ?case by simp
qed

lemma SetDictionary_with_buffer:
  assumes "length info > 1" and "HasInstance (arg info 1)"
  shows "SetDictionary E H info c =
           (case std_string (Utf8Value H (arg info 0)) of
              Inl f \<Rightarrow> Inl f
            | Inr language \<Rightarrow>
                (case impl_SetDictionaryToContents E
                        (Buffer_Data (arg info 1)) (Buffer_Length (arg info 1)) (impl c) of
                   Inl f \<Rightarrow> Inl f
                 | Inr (result, e') \<Rightarrow>
                     Inr (Return (JBoolean result)
                            (c\<lparr>dictData := Some (arg info 1), impl := e'\<rparr>))))"
proof -
  have "\<not> length info < 1" and "info \<noteq> []"
    using assms(1) by auto
  then show ?thesis
    using assms
    by (simp add: SetDictionary_def Let_def split: sum.splits prod.splits del: One_nat_def)
qed

lemma step_pins_buffer:
  assumes "length info > 1" and "HasInstance (arg info 1)"
      and "step E H (Invoke setDictionary info) s = Inr s'"
  shows "dictData (controller s') = Some (arg info 1)"
  using assms(3)
  by (auto simp: step_def Init_def SetDictionary_with_buffer [OF assms(1,2)] Return_def
      split: sum.splits prod.splits simp del: One_nat_def)

lemma run_append:
  "run E H (xs @ ys) s = (case run E H xs s of Inl f \<Rightarrow> Inl f | Inr s1 \<Rightarrow> run E H ys s1)"
  by (induction xs arbitrary: s) (auto split: sum.splits)

section \<open>The example engines and host, evaluated\<close>

lemma ascii_Utf8Value_tehc: "Utf8Value ascii (JString [116, 101, 104, 99]) = Some ''tehc''"
  by code_simp

lemma ascii_Utf8Value_en: "Utf8Value ascii (JString [101, 110]) = Some ''en''"
  by code_simp

lemma recorder_CheckSpelling:
  "impl_CheckSpelling recorder t n log
     = Inr ([\<lparr>range_start = 0, range_end = 4\<rparr>, \<lparr>range_start = 5, range_end = 9\<rparr>],
            log @ [CheckSpelling_call t n])"
  by (simp add: recorder_def)


lemma broken_CheckSpelling:
  "impl_CheckSpelling broken t n log = Inl (EngineFault ''CheckSpelling'')"
  by (simp add: broken_def)

lemma broken_GetCorrections:
  "impl_GetCorrectionsForMisspelling broken w log = Inl (EngineFault ''GetCorrectionsForMisspelling'')"
  by (simp add: broken_def)

lemma recorder_SetDictionaryToContents:
  "impl_SetDictionaryToContents recorder bytes n log
     = Inr (True, log @ [SetDictionaryToContents_call bytes n])"
  by (simp add: recorder_def)

lemma recorder_setDictionary_buffer:
  "step recorder ascii (Invoke setDictionary [JString lang, JBuffer b bytes]) s
     = Inr (s\<lparr>controller :=
               \<lparr>impl = impl (controller s) @ [SetDictionaryToContents_call bytes (length bytes)],
                dictData = Some (JBuffer b bytes)\<rparr>\<rparr>)"
proof -
  have "SetDictionary recorder ascii [JString lang, JBuffer b bytes] (controller s)
          = Inr (Return (JBoolean True)
                   ((controller s)
                      \<lparr>dictData := Some (JBuffer b bytes),
                       impl := impl (controller s) @ [SetDictionaryToContents_call bytes (length bytes)]\<rparr>))"
    by (subst SetDictionary_with_buffer)
       (simp_all add: arg_def recorder_SetDictionaryToContents Buffer_Length_def
          Utf8Value_def std_string_def)
  then show ?thesis
    by (simp add: step_def Init_def Return_def)
qed

lemma recorder_isMisspelled:
  "step recorder ascii (Invoke isMisspelled [JString [116, 101, 104, 99]]) s
     = Inr (s\<lparr>controller := (controller s)\<lparr>impl := impl (controller s) @ [IsMisspelled_call ''tehc'']\<rparr>\<rparr>)"
  by (simp add: step_def Init_def IsMisspelled_def arg_def ascii_Utf8Value_tehc std_string_def
      recorder_def Return_def)

lemma recorder_setDictionary_language:
  "step recorder ascii (Invoke setDictionary [JString [101, 110]]) s
     = Inr (s\<lparr>controller := (controller s)\<lparr>impl := impl (controller s) @ [SetDictionary_call ''en'']\<rparr>\<rparr>)"
  by (simp add: step_def Init_def SetDictionary_def arg_def ascii_Utf8Value_en std_string_def
      recorder_def Return_def Let_def)

lemma recorder_checkSpellingAsync:
  "step recorder ascii (Invoke checkSpellingAsync [JString [97, 98], cb]) s
     = Inr (s\<lparr>pending := pending s @ [CheckSpelling_job (new_CheckSpellingWorker cb [97, 98, 0])]\<rparr>)"
  by (simp add: step_def Init_def CheckSpellingAsync_nonempty AsyncQueueWorker_def arg_def)

lemma recorder_RunNext:
  assumes "pending s = CheckSpelling_job (new_CheckSpellingWorker cb t) # js"
      and "IsFunction cb"
  shows "step recorder ascii RunNext s
           = Inr (s\<lparr>controller :=
                     (controller s)\<lparr>impl := impl (controller s) @ [CheckSpelling_call t (length t)]\<rparr>,
                   pending := js,
                   delivered :=
                     delivered s @
                     [Call cb
                        [JNull,
                         JArray (map misspelled_range_object
                                   [\<lparr>range_start = 0, range_end = 4\<rparr>,
                                    \<lparr>range_start = 5, range_end = 9\<rparr>])]]\<rparr>)"
proof -
  have "run_job recorder ascii (CheckSpelling_job (new_CheckSpellingWorker cb t)) (impl (controller s))
          = Inr ([Call cb
                    [JNull,
                     JArray (map misspelled_range_object
                               [\<lparr>range_start = 0, range_end = 4\<rparr>,
                                \<lparr>range_start = 5, range_end = 9\<rparr>])]],
                 impl (controller s) @ [CheckSpelling_call t (length t)])"
    using assms(2) by (rule run_job_CheckSpelling_returns) (rule recorder_CheckSpelling)
  then show ?thesis
    using assms(1) by (simp add: step_def)
qed

lemma card_pinned: "card (pinned c) \<le> 1"
  by (cases "dictData c") (simp_all add: pinned_def)

lemma Init_throws:
  assumes "(m \<noteq> getAvailableDictionaries \<and> info = [])
         \<or> (m = checkSpellingAsync \<and> \<not> IsString (arg info 0))
         \<or> (m = setDictionary \<and> length info > 1 \<and> \<not> HasInstance (arg info 1))"
  shows "\<exists>msg. Init E H m info c = Inr (ThrowError msg c)"
  using assms
proof (elim disjE conjE)
  assume "m \<noteq> getAvailableDictionaries" and "info = []"
  then show ?thesis
    by (cases m)
       (auto simp: Init_def SetDictionary_def GetCorrectionsForMisspellingAsync_def
          IsMisspelled_def CheckSpellingAsync_def Add_def Remove_def)
next
  assume "m = checkSpellingAsync" and "\<not> IsString (arg info 0)"
  then show ?thesis
    by (cases "arg info 0") (auto simp: Init_def CheckSpellingAsync_def)
next
  assume "m = setDictionary" and "length info > 1" and "\<not> HasInstance (arg info 1)"
  then show ?thesis
    by (auto simp: Init_def SetDictionary_def simp del: One_nat_def)
qed

lemma Init_throws_only:
  assumes "Init E H m info c = Inr out" and "threw out = Some msg"
  shows "(m \<noteq> getAvailableDictionaries \<and> info = [])
       \<or> (m = checkSpellingAsync \<and> \<not> IsString (arg info 0))
       \<or> (m = setDictionary \<and> length info > 1 \<and> \<not> HasInstance (arg info 1))"
proof (cases m)
  case setDictionary
  then show ?thesis
    using assms
    by (auto simp: Init_def SetDictionary_def ThrowError_def Return_def Let_def
        std_string_def split: if_splits sum.splits prod.splits option.splits)
next
  case getAvailableDictionaries
  then show ?thesis
    using assms
    by (auto simp: Init_def GetAvailableDictionaries_def Return_def Let_def
        std_string_def split: if_splits sum.splits prod.splits option.splits)
next
  case getCorrectionsForMisspellingAsync
  then show ?thesis
    using assms
    by (auto simp: Init_def GetCorrectionsForMisspellingAsync_def ThrowError_def
        AsyncQueueWorker_def Let_def std_string_def split: if_splits option.splits)
next
  case isMisspelled
  then show ?thesis
    using assms
    by (auto simp: Init_def IsMisspelled_def ThrowError_def Return_def Let_def
        std_string_def split: if_splits sum.splits prod.splits option.splits)
next
  case checkSpellingAsync
  then show ?thesis
    using assms
    by (auto simp: Init_def CheckSpellingAsync_def ThrowError_def Return_def
        AsyncQueueWorker_def Let_def split: if_splits jsvalue.splits)
next
  case add
  then show ?thesis
    using assms
    by (auto simp: Init_def Add_def ThrowError_def Return_def Let_def
        std_string_def split: if_splits sum.splits option.splits)
next
  case remove
  then show ?thesis
    using assms
    by (auto simp: Init_def Remove_def ThrowError_def Return_def Let_def
        std_string_def split: if_splits sum.splits option.splits)
qed

section \<open>The claims\<close>

text \<open>
  C1. The claim: a call of \<^verbatim>\<open>checkSpellingAsync\<close> with an empty text completes by invoking
  the completion callback with an empty sequence of ranges, and schedules no background
  task. The code returns at \<^verbatim>\<open>string->Length() == 0\<close> before it reads the callback: below,
  the call with the empty string and a callback raises nothing and queues nothing, and
  running the process afterwards delivers no invocation at all. No task is scheduled, as
  the claim says; the callback is never invoked, against the claim.
\<close>

theorem empty_text_calls_nothing:
  "CheckSpellingAsync [JString [], JFunction 1] (New ([] :: engine_call list))
     = Inr \<lparr>threw = None, return_value = JUndefined, that = New [], queued = []\<rparr>
   \<and> run recorder ascii [Invoke checkSpellingAsync [JString [], JFunction 1], RunNext] (start [])
     = Inr \<lparr>controller = New [], pending = [], delivered = []\<rparr>"
  by (simp add: CheckSpellingAsync_empty Return_def step_def Init_def start_def)

text \<open>
  C2. The claim: a call of \<^verbatim>\<open>getAvailableDictionaries\<close> with an explicit path enumerates at
  that path, which is the one passed to the engine. The code assigns the argument to a
  second variable \<^verbatim>\<open>path\<close> that ends with its block: below, the call with the path
  \<^verbatim>\<open>/dicts\<close> reaches the engine with the path \<^verbatim>\<open>.\<close>.
\<close>

theorem explicit_path_is_dropped:
  "run recorder ascii [Invoke getAvailableDictionaries [JString [47, 100, 105, 99, 116, 115]]] (start [])
     = Inr \<lparr>controller = \<lparr>impl = [GetAvailableDictionaries_call ''.''], dictData = None\<rparr>,
            pending = [], delivered = []\<rparr>"
  apply (simp add: step_def Init_def GetAvailableDictionaries_def start_def New_def Let_def
      arg_def Utf8Value_def std_string_def)
  apply (simp add: recorder_def)
  apply (subst dictionaries_loop.simps, simp add: ascii_def ToLocalChecked_def array_Set_def)
  apply (subst dictionaries_loop.simps, simp add: Return_def)
  done

text \<open>
  C3. The claim: every malformed call (a required argument missing, the completion
  callback of an asynchronous operation included, or an argument of the wrong kind) fails
  at once and synchronously, before any task is scheduled, and never through the
  callback. The code checks less: a call of an asynchronous operation with no callback
  argument raises nothing and queues its task, with \<^verbatim>\<open>undefined\<close> as callback (the
  counterexample below). Amended, to the calls that the code does check: a call with no
  argument at all to any method but \<^verbatim>\<open>getAvailableDictionaries\<close>, a call of
  \<^verbatim>\<open>checkSpellingAsync\<close> whose first argument is not a string, and a call of
  \<^verbatim>\<open>setDictionary\<close> whose second argument is given and is not a Buffer, raise an exception
  synchronously: the controller and the engine are unchanged, no task is queued, and
  nothing is delivered to any callback. What becomes of the other malformed calls is left
  out.
\<close>

theorem malformed_calls_throw:
  "(m \<noteq> getAvailableDictionaries \<and> info = [])
      \<or> (m = checkSpellingAsync \<and> \<not> IsString (arg info 0))
      \<or> (m = setDictionary \<and> length info > 1 \<and> \<not> HasInstance (arg info 1))
    \<longrightarrow> (\<exists>msg. Init E H m info c
                    = Inr \<lparr>threw = Some msg, return_value = JUndefined, that = c, queued = []\<rparr>)
         \<and> step E H (Invoke m info) s = Inr s"
proof (intro conjI impI)
  assume malformed: "(m \<noteq> getAvailableDictionaries \<and> info = [])
      \<or> (m = checkSpellingAsync \<and> \<not> IsString (arg info 0))
      \<or> (m = setDictionary \<and> length info > 1 \<and> \<not> HasInstance (arg info 1))"
  obtain msg where "Init E H m info c = Inr (ThrowError msg c)"
    using Init_throws [OF malformed] by blast
  then show "\<exists>msg. Init E H m info c
               = Inr \<lparr>threw = Some msg, return_value = JUndefined, that = c, queued = []\<rparr>"
    by (simp add: ThrowError_def)
  obtain msg' where "Init E H m info (controller s) = Inr (ThrowError msg' (controller s))"
    using Init_throws [OF malformed] by blast
  then show "step E H (Invoke m info) s = Inr s"
    by (simp add: ThrowError_def step_def)
qed

theorem malformed_calls_throw_witness:
  "(\<exists>msg. Init recorder ascii checkSpellingAsync [JInteger 5, JFunction 1] (New [])
            = Inr \<lparr>threw = Some msg, return_value = JUndefined, that = New [], queued = []\<rparr>)
   \<and> step recorder ascii (Invoke checkSpellingAsync [JInteger 5, JFunction 1]) (start [])
       = Inr (start [])
   \<and> (\<exists>msg. Init recorder ascii setDictionary [JString [101, 110], JInteger 5] (New [])
            = Inr \<lparr>threw = Some msg, return_value = JUndefined, that = New [], queued = []\<rparr>)
   \<and> (\<exists>msg. Init recorder ascii getCorrectionsForMisspellingAsync [] (New [])
            = Inr \<lparr>threw = Some msg, return_value = JUndefined, that = New [], queued = []\<rparr>)"
  using malformed_calls_throw
          [where m = checkSpellingAsync and info = "[JInteger 5, JFunction 1]"
             and E = recorder and H = ascii and c = "New []" and s = "start []"]
        malformed_calls_throw
          [where m = setDictionary and info = "[JString [101, 110], JInteger 5]"
             and E = recorder and H = ascii and c = "New []" and s = "start []"]
        malformed_calls_throw
          [where m = getCorrectionsForMisspellingAsync and info = "[]"
             and E = recorder and H = ascii and c = "New []" and s = "start []"]
  by (simp add: arg_def)

theorem missing_callback_is_accepted:
  "GetCorrectionsForMisspellingAsync ascii [JString [116, 101, 104, 99]] (New ([] :: engine_call list))
     = Inr \<lparr>threw = None, return_value = JUndefined, that = New [],
            queued = [GetCorrections_job
                        \<lparr>callback = JUndefined, errmsg = None,
                         gc_word = ''tehc'', corrections = []\<rparr>]\<rparr>
   \<and> run recorder ascii [Invoke checkSpellingAsync [JString [97, 98]]] (start [])
     = Inr \<lparr>controller = New [],
            pending = [CheckSpelling_job
                         \<lparr>callback = JUndefined, errmsg = None,
                          cs_text = [97, 98, 0], misspelled_ranges = []\<rparr>],
            delivered = []\<rparr>"
  by (simp add: GetCorrectionsForMisspellingAsync_def AsyncQueueWorker_def
      new_GetCorrectionsForMisspellingWorker_def arg_def ascii_Utf8Value_tehc std_string_def
      step_def Init_def CheckSpellingAsync_nonempty new_CheckSpellingWorker_def start_def)

text \<open>
  C4. The claim: for a non-empty text, the code units handed to the engine's
  \<^verbatim>\<open>CheckSpelling\<close> are exactly the caller's text, of the same length. The vector has
  \<^verbatim>\<open>Length() + 1\<close> units and \<^verbatim>\<open>Execute\<close> passes \<^verbatim>\<open>text.size()\<close>: for the text \<^verbatim>\<open>ab\<close> the
  engine receives three units (the counterexample below). Amended: for every
  non-empty text, the worker queued holds the caller's code units followed by one zero
  unit, and \<^verbatim>\<open>Execute\<close> hands the engine that sequence with the text's length plus one;
  the worker's copy is the same after \<^verbatim>\<open>Execute\<close>.
\<close>

theorem engine_gets_text_and_terminator:
  assumes "s \<noteq> []"
  shows "CheckSpellingAsync (JString s # rest) c
           = Inr \<lparr>threw = None, return_value = JUndefined, that = c,
                  queued = [CheckSpelling_job
                              \<lparr>callback = arg (JString s # rest) 1, errmsg = None,
                               cs_text = s @ [0], misspelled_ranges = []\<rparr>]\<rparr>
       \<and> CheckSpellingWorker_Execute E
             \<lparr>callback = cb, errmsg = None, cs_text = s @ [0], misspelled_ranges = []\<rparr> e
           = (case impl_CheckSpelling E (s @ [0]) (length s + 1) e of
                Inl f \<Rightarrow> Inl f
              | Inr (ranges, e') \<Rightarrow>
                  Inr (\<lparr>callback = cb, errmsg = None, cs_text = s @ [0],
                        misspelled_ranges = ranges\<rparr>, e'))"
  using assms
  by (simp add: CheckSpellingAsync_nonempty AsyncQueueWorker_def new_CheckSpellingWorker_def
      CheckSpellingWorker_Execute_def split: sum.splits prod.splits)

theorem engine_gets_text_and_terminator_witness:
  "CheckSpellingAsync [JString [97, 98], JFunction 1] (New ([] :: engine_call list))
     = Inr \<lparr>threw = None, return_value = JUndefined, that = New [],
            queued = [CheckSpelling_job
                        \<lparr>callback = JFunction 1, errmsg = None,
                         cs_text = [97, 98, 0], misspelled_ranges = []\<rparr>]\<rparr>
   \<and> CheckSpellingWorker_Execute recorder
         \<lparr>callback = JFunction 1, errmsg = None, cs_text = [97, 98, 0], misspelled_ranges = []\<rparr> []
     = Inr (\<lparr>callback = JFunction 1, errmsg = None, cs_text = [97, 98, 0],
             misspelled_ranges = [\<lparr>range_start = 0, range_end = 4\<rparr>,
                                  \<lparr>range_start = 5, range_end = 9\<rparr>]\<rparr>,
            [CheckSpelling_call [97, 98, 0] 3])"
  using engine_gets_text_and_terminator
          [of "[97, 98]" "[JFunction 1]" "New ([] :: engine_call list)" recorder "JFunction 1" "[]"]
  by (simp add: arg_def recorder_def)

theorem engine_gets_one_unit_more:
  "run recorder ascii [Invoke checkSpellingAsync [JString [97, 98], JFunction 1], RunNext] (start [])
     = Inr \<lparr>controller = \<lparr>impl = [CheckSpelling_call [97, 98, 0] 3], dictData = None\<rparr>,
            pending = [],
            delivered =
              [Call (JFunction 1)
                 [JNull,
                  JArray [JObject [(''start'', JInteger 0), (''end'', JInteger 4)],
                          JObject [(''start'', JInteger 5), (''end'', JInteger 9)]]]]\<rparr>"
proof -
  have queue: "step recorder ascii (Invoke checkSpellingAsync [JString [97, 98], JFunction 1]) (start [])
          = Inr \<lparr>controller = New [],
                 pending = [CheckSpelling_job (new_CheckSpellingWorker (JFunction 1) [97, 98, 0])],
                 delivered = []\<rparr>"
    by (simp add: step_def Init_def CheckSpellingAsync_nonempty AsyncQueueWorker_def arg_def start_def)
  have engine: "impl_CheckSpelling recorder [97, 98, 0] (length [97, 98, 0 :: uint16]) []
          = Inr ([\<lparr>range_start = 0, range_end = 4\<rparr>, \<lparr>range_start = 5, range_end = 9\<rparr>],
                 [CheckSpelling_call [97, 98, 0] 3])"
    by (simp add: recorder_def)
  have job: "run_job recorder ascii (CheckSpelling_job (new_CheckSpellingWorker (JFunction 1) [97, 98, 0])) []
          = Inr ([Call (JFunction 1)
                    [JNull,
                     JArray [JObject [(''start'', JInteger 0), (''end'', JInteger 4)],
                             JObject [(''start'', JInteger 5), (''end'', JInteger 9)]]]],
                 [CheckSpelling_call [97, 98, 0] 3])"
    using run_job_CheckSpelling_returns [OF _ engine, of "JFunction 1" ascii]
    by (simp add: misspelled_range_object_small)
  show ?thesis
    using queue job by (simp add: step_def New_def)
qed




text \<open>
  C6. The claim: when the engine call faults during \<^verbatim>\<open>Execute\<close>, the fault is captured on
  the background thread and delivered through the error argument of the callback, and
  the pool goes on. Neither \<^verbatim>\<open>Execute\<close> has a handler or sets the error message: with an
  engine that faults, the run of the queued task ends the process and no callback is
  invoked (the counterexample below). Amended: when the engine
  call of a task faults, the fault leaves \<^verbatim>\<open>Execute\<close> and the task's run as it is, uncaught,
  and the callback is not invoked, neither with an error nor with a payload; and
  \<^verbatim>\<open>Execute\<close>, when it returns, leaves the worker's error message as it was (unset), so
  that \<^verbatim>\<open>WorkComplete\<close> never takes the error path.
\<close>

theorem engine_fault_is_not_captured:
  "(impl_CheckSpelling E t (length t) e = Inl f \<longrightarrow>
      run_job E H (CheckSpelling_job (new_CheckSpellingWorker cb t)) e = Inl f)
   \<and> (impl_GetCorrectionsForMisspelling E w e = Inl f \<longrightarrow>
      run_job E H (GetCorrections_job (new_GetCorrectionsForMisspellingWorker cb w)) e = Inl f)
   \<and> (pending s = j # js \<and> run_job E H j (impl (controller s)) = Inl f \<longrightarrow>
      step E H RunNext s = Inl f)
   \<and> (Execute E j e = Inr (j', e') \<longrightarrow> ErrorMessage j' = ErrorMessage j)"
proof (intro conjI impI)
  assume "impl_CheckSpelling E t (length t) e = Inl f"
  then show "run_job E H (CheckSpelling_job (new_CheckSpellingWorker cb t)) e = Inl f"
    by (rule run_job_CheckSpelling_faults)
next
  assume "impl_GetCorrectionsForMisspelling E w e = Inl f"
  then show "run_job E H (GetCorrections_job (new_GetCorrectionsForMisspellingWorker cb w)) e = Inl f"
    by (rule run_job_GetCorrections_faults)
next
  assume "pending s = j # js \<and> run_job E H j (impl (controller s)) = Inl f"
  then show "step E H RunNext s = Inl f"
    by (simp add: step_def)
next
  assume "Execute E j e = Inr (j', e')"
  then show "ErrorMessage j' = ErrorMessage j"
    by (rule Execute_keeps_ErrorMessage)
qed

theorem engine_fault_is_not_captured_witness:
  "run_job broken ascii (CheckSpelling_job (new_CheckSpellingWorker (JFunction 1) [97, 98, 0])) []
     = Inl (EngineFault ''CheckSpelling'')
   \<and> run_job broken ascii
         (GetCorrections_job (new_GetCorrectionsForMisspellingWorker (JFunction 1) ''tehc'')) []
     = Inl (EngineFault ''GetCorrectionsForMisspelling'')
   \<and> step broken ascii RunNext
         \<lparr>controller = New [],
          pending = [CheckSpelling_job (new_CheckSpellingWorker (JFunction 1) [97, 98, 0])],
          delivered = []\<rparr>
     = Inl (EngineFault ''CheckSpelling'')
   \<and> ErrorMessage
         (CheckSpelling_job
            \<lparr>callback = JFunction 1, errmsg = None, cs_text = [97, 98, 0],
             misspelled_ranges = [\<lparr>range_start = 0, range_end = 4\<rparr>,
                                  \<lparr>range_start = 5, range_end = 9\<rparr>]\<rparr>)
     = None"
proof -
  note fault = engine_fault_is_not_captured
          [where E = broken and H = ascii and e = "[]" and t = "[97, 98, 0]"
             and f = "EngineFault ''CheckSpelling''" and cb = "JFunction 1"
             and w = "''tehc''"
             and s = "\<lparr>controller = New [],
                      pending = [CheckSpelling_job (new_CheckSpellingWorker (JFunction 1) [97, 98, 0])],
                      delivered = []\<rparr>"
             and j = "CheckSpelling_job (new_CheckSpellingWorker (JFunction 1) [97, 98, 0])"
             and js = "[]"]
  note fault2 = engine_fault_is_not_captured
          [where E = broken and H = ascii and e = "[]" and w = "''tehc''"
             and f = "EngineFault ''GetCorrectionsForMisspelling''" and cb = "JFunction 1"]
  note kept = engine_fault_is_not_captured
          [where E = recorder and e = "[]"
             and j = "CheckSpelling_job (new_CheckSpellingWorker (JFunction 1) [97, 98, 0])"
             and j' = "CheckSpelling_job
                         \<lparr>callback = JFunction 1, errmsg = None, cs_text = [97, 98, 0],
                          misspelled_ranges = [\<lparr>range_start = 0, range_end = 4\<rparr>,
                                               \<lparr>range_start = 5, range_end = 9\<rparr>]\<rparr>"
             and e' = "[CheckSpelling_call [97, 98, 0] 3]"]
  have a: "run_job broken ascii (CheckSpelling_job (new_CheckSpellingWorker (JFunction 1) [97, 98, 0])) []
             = Inl (EngineFault ''CheckSpelling'')"
    using fault by (simp add: broken_CheckSpelling)
  have b: "run_job broken ascii
             (GetCorrections_job (new_GetCorrectionsForMisspellingWorker (JFunction 1) ''tehc'')) []
           = Inl (EngineFault ''GetCorrectionsForMisspelling'')"
    using fault2 by (simp add: broken_GetCorrections)
  have c: "step broken ascii RunNext
         \<lparr>controller = New [],
          pending = [CheckSpelling_job (new_CheckSpellingWorker (JFunction 1) [97, 98, 0])],
          delivered = []\<rparr>
     = Inl (EngineFault ''CheckSpelling'')"
    using fault a by (simp add: New_def)
  have "Execute recorder (CheckSpelling_job (new_CheckSpellingWorker (JFunction 1) [97, 98, 0])) []
          = Inr (CheckSpelling_job
                   \<lparr>callback = JFunction 1, errmsg = None, cs_text = [97, 98, 0],
                    misspelled_ranges = [\<lparr>range_start = 0, range_end = 4\<rparr>,
                                         \<lparr>range_start = 5, range_end = 9\<rparr>]\<rparr>,
                 [CheckSpelling_call [97, 98, 0] 3])"
    by (simp add: Execute_def CheckSpellingWorker_Execute_def new_CheckSpellingWorker_def
        recorder_CheckSpelling)
  then have d: "ErrorMessage
         (CheckSpelling_job
            \<lparr>callback = JFunction 1, errmsg = None, cs_text = [97, 98, 0],
             misspelled_ranges = [\<lparr>range_start = 0, range_end = 4\<rparr>,
                                  \<lparr>range_start = 5, range_end = 9\<rparr>]\<rparr>)
     = None"
    using kept by (simp add: ErrorMessage_def new_CheckSpellingWorker_def)
  show ?thesis using a b c d by simp
qed

theorem fault_kills_process_without_error_callback:
  "run broken ascii [Invoke checkSpellingAsync [JString [97, 98], JFunction 1], RunNext] (start [])
     = Inl (EngineFault ''CheckSpelling'')"
proof -
  have "run_job broken ascii (CheckSpelling_job (new_CheckSpellingWorker (JFunction 1) [97, 98, 0])) []
          = Inl (EngineFault ''CheckSpelling'')"
    by (rule run_job_CheckSpelling_faults) (rule broken_CheckSpelling)
  then show ?thesis
    by (simp add: step_def Init_def CheckSpellingAsync_nonempty AsyncQueueWorker_def arg_def
        start_def New_def)
qed




text \<open>
  C8. The claim: a buffer supplied to \<^verbatim>\<open>setDictionary\<close> is kept alive by the controller for
  the controller's entire remaining lifetime. There is one slot, \<^verbatim>\<open>dictData\<close>, and the
  next call with a buffer resets it: after a second call with another buffer the first
  is no longer held (the counterexample below). Amended: after a
  \<^verbatim>\<open>setDictionary\<close> call that supplies a Buffer, the controller holds that buffer, and
  goes on holding it through every later call and every run of a queued task, as long as
  none of them is a \<^verbatim>\<open>setDictionary\<close> call that supplies a Buffer.
\<close>

theorem buffer_pinned_until_replaced:
  assumes "run E H (Invoke setDictionary info # rest) s = Inr s'"
      and "length info > 1" and "HasInstance (arg info 1)"
      and "list_all (\<lambda>a. \<not> pins_buffer a) rest"
  shows "dictData (controller s') = Some (arg info 1)"
proof -
  from assms(1) obtain s1 where
      first: "step E H (Invoke setDictionary info) s = Inr s1" and
      after: "run E H rest s1 = Inr s'"
    by (auto split: sum.splits)
  have "dictData (controller s1) = Some (arg info 1)"
    using assms(2,3) first by (rule step_pins_buffer)
  moreover have "dictData (controller s') = dictData (controller s1)"
    using assms(4) after by (rule run_keeps_dictData)
  ultimately show ?thesis by simp
qed

theorem buffer_pinned_until_replaced_witness:
  "\<exists>s'. run recorder ascii
           [Invoke setDictionary [JString [101, 110], JBuffer 1 [1, 2]],
            Invoke isMisspelled [JString [116, 101, 104, 99]],
            Invoke setDictionary [JString [101, 110]],
            Invoke checkSpellingAsync [JString [97, 98], JFunction 1],
            RunNext] (start [])
         = Inr s'
       \<and> dictData (controller s') = Some (JBuffer 1 [1, 2])"
proof -
  have "\<exists>s'. run recorder ascii
           [Invoke setDictionary [JString [101, 110], JBuffer 1 [1, 2]],
            Invoke isMisspelled [JString [116, 101, 104, 99]],
            Invoke setDictionary [JString [101, 110]],
            Invoke checkSpellingAsync [JString [97, 98], JFunction 1],
            RunNext] (start [])
         = Inr s'"
    by (simp add: recorder_setDictionary_buffer recorder_isMisspelled
        recorder_setDictionary_language recorder_checkSpellingAsync recorder_RunNext
        start_def New_def)
  then obtain s' where r: "run recorder ascii
           [Invoke setDictionary [JString [101, 110], JBuffer 1 [1, 2]],
            Invoke isMisspelled [JString [116, 101, 104, 99]],
            Invoke setDictionary [JString [101, 110]],
            Invoke checkSpellingAsync [JString [97, 98], JFunction 1],
            RunNext] (start [])
         = Inr s'"
    by blast
  have "dictData (controller s') = Some (arg [JString [101, 110], JBuffer 1 [1, 2]] 1)"
    by (rule buffer_pinned_until_replaced [OF r]) (simp_all add: arg_def)
  then show ?thesis
    using r by (simp add: arg_def)
qed

theorem later_buffer_replaces_earlier:
  "run recorder ascii
     [Invoke setDictionary [JString [101, 110], JBuffer 1 [1, 2]],
      Invoke setDictionary [JString [101, 110], JBuffer 2 [3]]] (start [])
   = Inr \<lparr>controller =
            \<lparr>impl = [SetDictionaryToContents_call [1, 2] 2, SetDictionaryToContents_call [3] 1],
             dictData = Some (JBuffer 2 [3])\<rparr>,
          pending = [], delivered = []\<rparr>"
  by (simp add: recorder_setDictionary_buffer start_def New_def)

text \<open>
  C9. For every word string, the empty one included, \<^verbatim>\<open>getCorrectionsForMisspellingAsync\<close>
  schedules a background task: the call raises nothing and queues exactly one worker,
  holding the word and the callback argument; in the process, the worker joins the
  pending work. There is no path that returns without queueing.
\<close>

theorem corrections_always_queued:
  "GetCorrectionsForMisspellingAsync H (JString w # rest) c
     = Inr \<lparr>threw = None, return_value = JUndefined, that = c,
            queued = [GetCorrections_job
                        \<lparr>callback = arg (JString w # rest) 1, errmsg = None,
                         gc_word = WriteUtf8 H w, corrections = []\<rparr>]\<rparr>
   \<and> step E H (Invoke getCorrectionsForMisspellingAsync (JString w # rest)) s
     = Inr (s\<lparr>pending := pending s @
                 [GetCorrections_job
                    \<lparr>callback = arg (JString w # rest) 1, errmsg = None,
                     gc_word = WriteUtf8 H w, corrections = []\<rparr>]\<rparr>)"
  by (simp add: GetCorrectionsForMisspellingAsync_def AsyncQueueWorker_def
      new_GetCorrectionsForMisspellingWorker_def arg_def step_def Init_def
      Utf8Value_def std_string_def)

theorem corrections_always_queued_witness:
  "GetCorrectionsForMisspellingAsync ascii [JString [], JFunction 7] (New ([] :: engine_call list))
     = Inr \<lparr>threw = None, return_value = JUndefined, that = New [],
            queued = [GetCorrections_job
                        \<lparr>callback = JFunction 7, errmsg = None,
                         gc_word = [], corrections = []\<rparr>]\<rparr>"
  using corrections_always_queued
          [of ascii "[]" "[JFunction 7]" "New ([] :: engine_call list)" recorder "start []"]
  by (simp add: arg_def ascii_def)

text \<open>
  C10. At every point the controller pins at most one buffer, and each \<^verbatim>\<open>setDictionary\<close>
  call that supplies a Buffer overwrites the slot: whatever happened before, after such a
  call the pinned buffers are exactly that call's buffer, so that any other buffer, one
  supplied by an earlier call included, is no longer held.
\<close>

theorem one_pinned_buffer:
  assumes "run E H (before @ [Invoke setDictionary info]) s = Inr s'"
      and "length info > 1" and "HasInstance (arg info 1)"
  shows "pinned (controller s') = {arg info 1}
       \<and> (b \<noteq> arg info 1 \<longrightarrow> b \<notin> pinned (controller s'))
       \<and> card (pinned c) \<le> 1"
proof -
  from assms(1) obtain s1 where
      last: "step E H (Invoke setDictionary info) s1 = Inr s'"
    by (auto simp: run_append split: sum.splits)
  have "dictData (controller s') = Some (arg info 1)"
    using assms(2,3) last by (rule step_pins_buffer)
  then have "pinned (controller s') = {arg info 1}"
    by (simp add: pinned_def)
  moreover have "card (pinned c) \<le> 1"
    by (rule card_pinned)
  ultimately show ?thesis by simp
qed

theorem one_pinned_buffer_witness:
  "\<exists>s'. run recorder ascii
           ([Invoke setDictionary [JString [101, 110], JBuffer 1 [1, 2]]]
              @ [Invoke setDictionary [JString [101, 110], JBuffer 2 [3]]]) (start [])
         = Inr s'
       \<and> pinned (controller s') = {JBuffer 2 [3]}
       \<and> JBuffer 1 [1, 2] \<notin> pinned (controller s')"
proof -
  have r: "run recorder ascii
     ([Invoke setDictionary [JString [101, 110], JBuffer 1 [1, 2]]]
        @ [Invoke setDictionary [JString [101, 110], JBuffer 2 [3]]]) (start [])
   = Inr \<lparr>controller =
            \<lparr>impl = [SetDictionaryToContents_call [1, 2] 2, SetDictionaryToContents_call [3] 1],
             dictData = Some (JBuffer 2 [3])\<rparr>,
          pending = [], delivered = []\<rparr>"
    by (simp add: recorder_setDictionary_buffer start_def New_def)
  show ?thesis
    using one_pinned_buffer
            [where b = "JBuffer 1 [1, 2]" and c = "New ([] :: engine_call list)", OF r] r
    by (simp add: arg_def)
qed

end
